theory Spec2Isabelle
  imports Main "HOL-Library.Word"
begin

unbundle bit_operations_syntax

section \<open>Go values used by the discovery service\<close>

text \<open>
  A Go \<^verbatim>\<open>[]byte\<close> is a list of 8-bit words, a Go \<^verbatim>\<open>string\<close> a list of characters
  (Isabelle characters are bytes); \<^verbatim>\<open>[]byte(s)\<close> converts one into the other.
\<close>

type_synonym byte = "8 word"

definition bytes :: "string \<Rightarrow> byte list" where
  "bytes s = map of_char s"

text \<open>
  A Go \<^verbatim>\<open>error\<close> value: its dynamic type and the text its \<^verbatim>\<open>Error()\<close> method returns.
  \<^verbatim>\<open>nil\<close> is \<open>None\<close> of \<open>error option\<close>.
\<close>

datatype error = GoError (dynType: string) (Error: string)

definition errors_New :: "string \<Rightarrow> error" where
  "errors_New text = GoError ''*errors.errorString'' text"

text \<open>
  \<^verbatim>\<open>fmt.Errorf(prefix + "%v", err)\<close>: a fresh error whose text is the prefix followed by
  the text of \<open>err\<close>.
\<close>

definition fmt_Errorf :: "string \<Rightarrow> error \<Rightarrow> error" where
  "fmt_Errorf prefix err = errors_New (prefix @ Error err)"

text \<open>\<^verbatim>\<open>hex.EncodeToString\<close>: two lower-case digits for each byte, high nibble first.\<close>

definition hextable :: string where
  "hextable = ''0123456789abcdef''"

fun EncodeToString :: "byte list \<Rightarrow> string" where
  "EncodeToString [] = []"
| "EncodeToString (v # src) =
     hextable ! unat (drop_bit 4 v) # hextable ! unat (v AND 0x0f) # EncodeToString src"

section \<open>Constants and data of discovery.go\<close>

definition protocolKeyName :: string where
  "protocolKeyName = ''NOTIFICATION_PROTOCOL_KEY''"

definition topicDiscoverServer :: string where
  "topicDiscoverServer = ''DISCOVER_NOTIFICATION_SERVER''"

definition topicProposeServer :: string where
  "topicProposeServer = ''PROPOSE_NOTIFICATION_SERVER''"

definition topicServerAccepted :: string where
  "topicServerAccepted = ''ACCEPT_NOTIFICATION_SERVER''"

definition topicAckClientSubscription :: string where
  "topicAckClientSubscription = ''ACK_NOTIFICATION_SERVER_SUBSCRIPTION''"

text \<open>
  The fields of \<^verbatim>\<open>whisper.ReceivedMessage\<close> the handlers read: \<^verbatim>\<open>msg.Src\<close> (a pointer to
  the sender's public key, \<open>None\<close> when nil) and \<^verbatim>\<open>msg.Payload\<close>. The type \<open>'k\<close> stands for
  \<^verbatim>\<open>ecdsa.PublicKey\<close>.
\<close>

record 'k ReceivedMessage =
  msg_Src :: "'k option"
  msg_Payload :: "byte list"

text \<open>
  The fields of \<^verbatim>\<open>whisper.MessageParams\<close> that the two struct literals of the source set.
  \<^verbatim>\<open>PoW\<close> is a \<^verbatim>\<open>float64\<close> that the code only copies from the configuration, so its
  type is left open as \<open>'p\<close>.
\<close>

record ('k, 'p) MessageParams =
  Dst :: "'k option"
  KeySym :: "byte list"
  Topic :: "byte list"
  Payload :: "byte list"
  TTL :: "32 word"
  PoW :: 'p
  WorkTime :: "32 word"

record 'p WhisperConfig =
  config_TTL :: int
  config_MinimumPoW :: 'p

text \<open>
  The fields of \<^verbatim>\<open>NotificationServer\<close> that discovery.go reads. Its \<^verbatim>\<open>whisper\<close> field and
  its methods are the collaborators below. The pointers \<^verbatim>\<open>s.server\<close>,
  \<^verbatim>\<open>s.server.whisper\<close>, \<^verbatim>\<open>s.server.config\<close> and \<^verbatim>\<open>msg\<close> are taken to be non-nil.
\<close>

record 'p NotificationServer =
  nodeID :: string
  protocolKey :: "byte list"
  config :: "'p WhisperConfig"

record 'p discoveryService =
  server :: "'p NotificationServer"
  discoverFilterID :: string
  serverAcceptedFilterID :: string

record ClientSession =
  ClientKey :: string

definition NewDiscoveryService :: "'p NotificationServer \<Rightarrow> 'p discoveryService" where
  "NewDiscoveryService notificationServer =
     \<lparr>server = notificationServer, discoverFilterID = '''', serverAcceptedFilterID = ''''\<rparr>"

section \<open>The collaborators: transport, registry, decoders\<close>

text \<open>
  Everything the service does to the outside is a call of a function that is not part of
  discovery.go. Each such call is recorded, with its arguments and its result, at the end
  of a trace; the service's functions take the trace and return it extended. The type
  \<open>'e\<close> stands for \<^verbatim>\<open>whisper.Envelope\<close>.
\<close>

datatype handler = ProcessDiscoveryRequest | ProcessServerAcceptedRequest

datatype ('k, 'p, 'e) call =
    InstallTopicFilterCall string "byte list" string "error option"
  | RequestProcessorLoopCall string string handler
  | UnwatchCall string
  | RegisterClientSessionCall ClientSession "error + byte list"
  | WrapCall "('k, 'p) MessageParams" "error + 'e"
  | SendCall 'e "error option"

text \<open>
  What the collaborators answer is a parameter of the model: each answer may depend on
  the arguments and on everything that happened before (the trace).
  \<^item> \<open>installResult\<close>: the pair \<^verbatim>\<open>(filterID, err)\<close> of \<^verbatim>\<open>installTopicFilter\<close>;
  \<^item> \<open>registerResult\<close>: the session key or the error of \<^verbatim>\<open>RegisterClientSession\<close>;
  \<^item> \<open>wrapResult\<close>: the envelope or the error of \<^verbatim>\<open>NewSentMessage\<close> followed by \<^verbatim>\<open>Wrap\<close>;
  \<^item> \<open>sendResult\<close>: the error of \<^verbatim>\<open>whisper.Send\<close>;
  \<^item> \<open>unmarshalResult\<close>: \<^verbatim>\<open>json.Unmarshal\<close> into the struct with the single field
    \<^verbatim>\<open>ServerID string `json:"server"`\<close>: the error, or the decoded \<^verbatim>\<open>ServerID\<close>;
  \<^item> \<open>FromECDSAPub\<close>: \<^verbatim>\<open>crypto.FromECDSAPub\<close>, the byte encoding of a public key;
  \<^item> \<open>topicHash\<close> and \<open>TopicLength\<close>: the one-way hash and the topic width \<open>MakeTopic\<close> uses.
\<close>

record ('k, 'p, 'e) Collaborators =
  installResult :: "string \<Rightarrow> byte list \<Rightarrow> ('k, 'p, 'e) call list \<Rightarrow> string \<times> error option"
  registerResult :: "ClientSession \<Rightarrow> ('k, 'p, 'e) call list \<Rightarrow> error + byte list"
  wrapResult :: "('k, 'p) MessageParams \<Rightarrow> ('k, 'p, 'e) call list \<Rightarrow> error + 'e"
  sendResult :: "'e \<Rightarrow> ('k, 'p, 'e) call list \<Rightarrow> error option"
  unmarshalResult :: "byte list \<Rightarrow> error + string"
  FromECDSAPub :: "'k \<Rightarrow> byte list"
  topicHash :: "byte list \<Rightarrow> byte list"
  TopicLength :: nat

text \<open>
  Modelled from the spec: the body of \<^verbatim>\<open>MakeTopic\<close> is not in discovery.go. The spec (4.4)
  describes a pure function from a protocol-step name to a fixed-size topic value, "using
  a standard one-way hash truncated/formatted to the transport's topic width": the hash
  of the name, cut to the width and filled with zero bytes when the hash is shorter.
\<close>

definition MakeTopic :: "('k, 'p, 'e) Collaborators \<Rightarrow> byte list \<Rightarrow> byte list" where
  "MakeTopic c password =
     take (TopicLength c) (topicHash c password @ replicate (TopicLength c) 0)"

text \<open>
  Modelled from the spec: \<^verbatim>\<open>installTopicFilter\<close> is a method of the hosting server, not in
  discovery.go. The spec (2, 6) gives \<^verbatim>\<open>installFilter(topic, key) -> filterHandle | error\<close>.
  The call is recorded with its answer.
\<close>

definition installTopicFilter ::
  "('k, 'p, 'e) Collaborators \<Rightarrow> string \<Rightarrow> byte list \<Rightarrow> ('k, 'p, 'e) call list \<Rightarrow>
     (string \<times> error option) \<times> ('k, 'p, 'e) call list" where
  "installTopicFilter c topicName topicKey tr =
     (let r = installResult c topicName topicKey tr
      in (r, tr @ [InstallTopicFilterCall topicName topicKey (fst r) (snd r)]))"

text \<open>
  Modelled from the spec: \<^verbatim>\<open>requestProcessorLoop\<close> is a method of the hosting server. The
  source starts it in a goroutine with the filter, the topic name and the handler; the
  model records that it was started.
\<close>

definition requestProcessorLoop ::
  "string \<Rightarrow> string \<Rightarrow> handler \<Rightarrow> ('k, 'p, 'e) call list \<Rightarrow> ('k, 'p, 'e) call list" where
  "requestProcessorLoop filterID topicName fn tr =
     tr @ [RequestProcessorLoopCall filterID topicName fn]"


text \<open>
  Modelled from the spec: \<^verbatim>\<open>RegisterClientSession\<close> is the registry's
  \<^verbatim>\<open>registerSession(descriptor) -> (sessionKey, error)\<close>.
\<close>

definition RegisterClientSession ::
  "('k, 'p, 'e) Collaborators \<Rightarrow> ClientSession \<Rightarrow> ('k, 'p, 'e) call list \<Rightarrow>
     (error + byte list) \<times> ('k, 'p, 'e) call list" where
  "RegisterClientSession c session tr =
     (let r = registerResult c session tr in (r, tr @ [RegisterClientSessionCall session r]))"

text \<open>
  Modelled from the spec: \<^verbatim>\<open>whisper.NewSentMessage\<close> followed by \<^verbatim>\<open>Wrap\<close> builds the
  envelope of a message from its parameters, or fails (the spec's WrapError).
\<close>

definition Wrap ::
  "('k, 'p, 'e) Collaborators \<Rightarrow> ('k, 'p) MessageParams \<Rightarrow> ('k, 'p, 'e) call list \<Rightarrow>
     (error + 'e) \<times> ('k, 'p, 'e) call list" where
  "Wrap c msgParams tr =
     (let r = wrapResult c msgParams tr in (r, tr @ [WrapCall msgParams r]))"

text \<open>
  Modelled from the spec: \<^verbatim>\<open>whisper.Send\<close> is the transport's
  \<^verbatim>\<open>publish(message) -> error\<close>.
\<close>

definition Send ::
  "('k, 'p, 'e) Collaborators \<Rightarrow> 'e \<Rightarrow> ('k, 'p, 'e) call list \<Rightarrow>
     error option \<times> ('k, 'p, 'e) call list" where
  "Send c env tr = (let r = sendResult c env tr in (r, tr @ [SendCall env r]))"

text \<open>
  Modelled from the spec: a filter handle is "created on installFilter, destroyed on
  removeFilter" (3). The filters alive after a trace are the identifiers of the
  successful installations that no later \<^verbatim>\<open>Unwatch\<close> names.
\<close>

fun filterStep :: "string list \<Rightarrow> ('k, 'p, 'e) call \<Rightarrow> string list" where
  "filterStep fs (InstallTopicFilterCall topicName topicKey filterID None) = fs @ [filterID]"
| "filterStep fs (InstallTopicFilterCall topicName topicKey filterID (Some err)) = fs"
| "filterStep fs (UnwatchCall filterID) = removeAll filterID fs"
| "filterStep fs (RequestProcessorLoopCall filterID topicName fn) = fs"
| "filterStep fs (RegisterClientSessionCall session r) = fs"
| "filterStep fs (WrapCall msgParams r) = fs"
| "filterStep fs (SendCall env r) = fs"

definition activeFilters :: "('k, 'p, 'e) call list \<Rightarrow> string list" where
  "activeFilters tr = foldl filterStep [] tr"

section \<open>discovery.go\<close>

text \<open>
  The functions below follow the source statement by statement; the \<^verbatim>\<open>glog\<close> lines, which
  only write to the log, are left out.

  \<^verbatim>\<open>Start\<close> (lines 42-61). Both results of \<^verbatim>\<open>installTopicFilter\<close> are assigned before the
  error is looked at, so the filter field is overwritten also when the installation fails.
\<close>

definition Start ::
  "('k, 'p, 'e) Collaborators \<Rightarrow> 'p discoveryService \<Rightarrow> ('k, 'p, 'e) call list \<Rightarrow>
     error option \<times> 'p discoveryService \<times> ('k, 'p, 'e) call list" where
  "Start c s tr =
     (case installTopicFilter c topicDiscoverServer (protocolKey (server s)) tr of
        ((id1, err1), tr1) \<Rightarrow>
          let s1 = s\<lparr>discoverFilterID := id1\<rparr> in
          (case err1 of
             Some err \<Rightarrow> (Some (fmt_Errorf ''failed installing filter: '' err), s1, tr1)
           | None \<Rightarrow>
               let tr2 = requestProcessorLoop (discoverFilterID s1) topicDiscoverServer
                           ProcessDiscoveryRequest tr1 in
               (case installTopicFilter c topicServerAccepted (protocolKey (server s1)) tr2 of
                  ((id2, err2), tr3) \<Rightarrow>
                    let s2 = s1\<lparr>serverAcceptedFilterID := id2\<rparr> in
                    (case err2 of
                       Some err \<Rightarrow>
                         (Some (fmt_Errorf ''failed installing filter: '' err), s2, tr3)
                     | None \<Rightarrow>
                         (None, s2,
                          requestProcessorLoop (serverAcceptedFilterID s2) topicServerAccepted
                            ProcessServerAcceptedRequest tr3)))))"


text \<open>The struct literal of lines 76-84; \<^verbatim>\<open>uint32(config.TTL)\<close> keeps the low 32 bits.\<close>

definition proposeParams ::
  "('k, 'p, 'e) Collaborators \<Rightarrow> 'p discoveryService \<Rightarrow> 'k ReceivedMessage \<Rightarrow>
     ('k, 'p) MessageParams" where
  \<open>proposeParams c s msg =
     \<lparr>Dst = msg_Src msg,
      KeySym = protocolKey (server s),
      Topic = MakeTopic c (bytes topicProposeServer),
      Payload = bytes (''{"server": "0x'' @ nodeID (server s) @ ''"}''),
      TTL = word_of_int (config_TTL (config (server s))),
      PoW = config_MinimumPoW (config (server s)),
      WorkTime = 5\<rparr>\<close>

text \<open>\<^verbatim>\<open>processDiscoveryRequest\<close> (lines 74-97).\<close>

definition processDiscoveryRequest ::
  "('k, 'p, 'e) Collaborators \<Rightarrow> 'p discoveryService \<Rightarrow> 'k ReceivedMessage \<Rightarrow>
     ('k, 'p, 'e) call list \<Rightarrow> error option \<times> ('k, 'p, 'e) call list" where
  "processDiscoveryRequest c s msg tr =
     (let msgParams = proposeParams c s msg in
      case Wrap c msgParams tr of
        (Inl err, tr1) \<Rightarrow>
          (Some (fmt_Errorf ''failed to wrap server proposal message: '' err), tr1)
      | (Inr env, tr1) \<Rightarrow>
          (case Send c env tr1 of
             (Some err, tr2) \<Rightarrow>
               (Some (fmt_Errorf ''failed to send server proposal message: '' err), tr2)
           | (None, tr2) \<Rightarrow> (None, tr2)))"

text \<open>The struct literal of lines 127-135.\<close>

definition ackParams ::
  "('k, 'p, 'e) Collaborators \<Rightarrow> 'p discoveryService \<Rightarrow> 'k ReceivedMessage \<Rightarrow> byte list \<Rightarrow>
     ('k, 'p) MessageParams" where
  \<open>ackParams c s msg sessionKey =
     \<lparr>Dst = msg_Src msg,
      KeySym = protocolKey (server s),
      Topic = MakeTopic c (bytes topicAckClientSubscription),
      Payload = bytes (''{"server": "0x'' @ nodeID (server s) @ ''", "key": "0x''
                        @ EncodeToString sessionKey @ ''"}''),
      TTL = word_of_int (config_TTL (config (server s))),
      PoW = config_MinimumPoW (config (server s)),
      WorkTime = 5\<rparr>\<close>

text \<open>\<^verbatim>\<open>processServerAcceptedRequest\<close> (lines 101-148).\<close>

definition processServerAcceptedRequest ::
  "('k, 'p, 'e) Collaborators \<Rightarrow> 'p discoveryService \<Rightarrow> 'k ReceivedMessage \<Rightarrow>
     ('k, 'p, 'e) call list \<Rightarrow> error option \<times> ('k, 'p, 'e) call list" where
  "processServerAcceptedRequest c s msg tr =
     (case unmarshalResult c (msg_Payload msg) of
        Inl err \<Rightarrow> (Some err, tr)
      | Inr ServerID \<Rightarrow>
          (case msg_Src msg of
             None \<Rightarrow> (Some (errors_New ''message 'from' field is required''), tr)
           | Some src \<Rightarrow>
               if ServerID \<noteq> ''0x'' @ nodeID (server s) then (None, tr)
               else
                 (case RegisterClientSession c
                         \<lparr>ClientKey = EncodeToString (FromECDSAPub c src)\<rparr> tr of
                    (Inl err, tr1) \<Rightarrow> (Some err, tr1)
                  | (Inr sessionKey, tr1) \<Rightarrow>
                      let msgParams = ackParams c s msg sessionKey in
                      (case Wrap c msgParams tr1 of
                         (Inl err, tr2) \<Rightarrow>
                           (Some (fmt_Errorf ''failed to wrap server proposal message: '' err),
                            tr2)
                       | (Inr env, tr2) \<Rightarrow>
                           (case Send c env tr2 of
                              (Some err, tr3) \<Rightarrow>
                                (Some (fmt_Errorf ''failed to send server proposal message: ''
                                         err), tr3)
                            | (None, tr3) \<Rightarrow> (None, tr3))))))"


section \<open>What a trace shows\<close>

text \<open>
  The envelopes handed to \<^verbatim>\<open>whisper.Send\<close> and the descriptors handed to
  \<^verbatim>\<open>RegisterClientSession\<close>, in the order of the calls: "publishes exactly one message"
  and "exactly one registerSession call" are statements about these lists.
\<close>

fun sentBy :: "('k, 'p, 'e) call \<Rightarrow> 'e list" where
  "sentBy (SendCall env r) = [env]"
| "sentBy (InstallTopicFilterCall topicName topicKey filterID r) = []"
| "sentBy (RequestProcessorLoopCall filterID topicName fn) = []"
| "sentBy (UnwatchCall filterID) = []"
| "sentBy (RegisterClientSessionCall session r) = []"
| "sentBy (WrapCall msgParams r) = []"

definition sentEnvelopes :: "('k, 'p, 'e) call list \<Rightarrow> 'e list" where
  "sentEnvelopes tr = concat (map sentBy tr)"

fun registeredBy :: "('k, 'p, 'e) call \<Rightarrow> ClientSession list" where
  "registeredBy (RegisterClientSessionCall session r) = [session]"
| "registeredBy (InstallTopicFilterCall topicName topicKey filterID r) = []"
| "registeredBy (RequestProcessorLoopCall filterID topicName fn) = []"
| "registeredBy (UnwatchCall filterID) = []"
| "registeredBy (WrapCall msgParams r) = []"
| "registeredBy (SendCall env r) = []"

definition registeredSessions :: "('k, 'p, 'e) call list \<Rightarrow> ClientSession list" where
  "registeredSessions tr = concat (map registeredBy tr)"

section \<open>Example collaborators\<close>

text \<open>
  Concrete collaborators for the examples: public keys and proof-of-work targets are
  numbers, an envelope is the parameters it was wrapped from, every call succeeds, the
  registry hands out the key \<^verbatim>\<open>k1\<close> and topics are the first four bytes of the name.
  \<open>exampleUnmarshal\<close> answers as \<^verbatim>\<open>json.Unmarshal\<close> does on the payloads the examples
  use: an empty object, an accept message for the server \<^verbatim>\<open>0xabcd\<close>, one for the server
  \<^verbatim>\<open>0xffff\<close>, an object whose \<^verbatim>\<open>server\<close> field is a number (a type error of the
  decoder), and the input \<^verbatim>\<open>not json\<close> (a syntax error), which stands for every other
  input.
\<close>

definition exampleUnmarshal :: "byte list \<Rightarrow> error + string" where
  \<open>exampleUnmarshal data =
     (if data = bytes ''{}'' then Inr ''''
      else if data = bytes ''{"server": "0xabcd"}'' then Inr ''0xabcd''
      else if data = bytes ''{"server": "0xffff"}'' then Inr ''0xffff''
      else if data = bytes ''{"server": 1}''
        then Inl (GoError ''*json.UnmarshalTypeError''
               ''json: cannot unmarshal number into Go value of type string'')
      else Inl (GoError ''*json.SyntaxError''
             ''invalid character 'o' in literal null (expecting 'u')''))\<close>

definition exampleCollaborators :: "(nat, nat, (nat, nat) MessageParams) Collaborators" where
  "exampleCollaborators =
     \<lparr>installResult = (\<lambda>topicName topicKey tr. (''filter:'' @ topicName, None)),
      registerResult = (\<lambda>session tr. Inr [0x6b, 0x31]),
      wrapResult = (\<lambda>msgParams tr. Inr msgParams),
      sendResult = (\<lambda>env tr. None),
      unmarshalResult = exampleUnmarshal,
      FromECDSAPub = (\<lambda>k. [4, of_nat k]),
      topicHash = (\<lambda>password. password),
      TopicLength = 4\<rparr>"

text \<open>The same, with one collaborator failing.\<close>

definition acceptFilterFails :: "(nat, nat, (nat, nat) MessageParams) Collaborators" where
  "acceptFilterFails =
     exampleCollaborators
       \<lparr>installResult := (\<lambda>topicName topicKey tr.
          if topicName = topicServerAccepted then ('''', Some (errors_New ''too many filters''))
          else (''filter:'' @ topicName, None))\<rparr>"

definition registryFails :: "(nat, nat, (nat, nat) MessageParams) Collaborators" where
  "registryFails =
     exampleCollaborators
       \<lparr>registerResult := (\<lambda>session tr. Inl (GoError ''*registry.Error'' ''registry closed''))\<rparr>"

definition wrapFails :: "(nat, nat, (nat, nat) MessageParams) Collaborators" where
  "wrapFails =
     exampleCollaborators
       \<lparr>wrapResult := (\<lambda>msgParams tr. Inl (errors_New ''insufficient work time''))\<rparr>"

definition sendFails :: "(nat, nat, (nat, nat) MessageParams) Collaborators" where
  "sendFails =
     exampleCollaborators
       \<lparr>sendResult := (\<lambda>env tr. Some (errors_New ''failed to add envelope''))\<rparr>"

text \<open>The server of the spec's scenario: identity \<^verbatim>\<open>abcd\<close>, protocol key \<^verbatim>\<open>K\<close>.\<close>

definition exampleService :: "nat discoveryService" where
  "exampleService =
     NewDiscoveryService
       \<lparr>nodeID = ''abcd'', protocolKey = [0x4b],
        config = \<lparr>config_TTL = 10, config_MinimumPoW = 1\<rparr>\<rparr>"

definition examplePropose :: "nat option \<Rightarrow> (nat, nat) MessageParams" where
  \<open>examplePropose dst =
     \<lparr>Dst = dst, KeySym = [0x4b], Topic = bytes ''PROP'',
      Payload = bytes ''{"server": "0xabcd"}'', TTL = 10, PoW = 1, WorkTime = 5\<rparr>\<close>

definition exampleAck :: "nat option \<Rightarrow> (nat, nat) MessageParams" where
  \<open>exampleAck dst =
     \<lparr>Dst = dst, KeySym = [0x4b], Topic = bytes ''ACK_'',
      Payload = bytes ''{"server": "0xabcd", "key": "0x6b31"}'', TTL = 10, PoW = 1,
      WorkTime = 5\<rparr>\<close>

definition acceptMessage :: "nat option \<Rightarrow> string \<Rightarrow> nat ReceivedMessage" where
  "acceptMessage src payload = \<lparr>msg_Src = src, msg_Payload = bytes payload\<rparr>"


section \<open>Auxiliary facts\<close>

lemma activeFilters_append:
  "activeFilters (tr @ calls) = foldl filterStep (activeFilters tr) calls"
  by (simp add: activeFilters_def)

lemma sentEnvelopes_append:
  "sentEnvelopes (tr @ calls) = sentEnvelopes tr @ sentEnvelopes calls"
  by (simp add: sentEnvelopes_def)

lemma registeredSessions_append:
  "registeredSessions (tr @ calls) = registeredSessions tr @ registeredSessions calls"
  by (simp add: registeredSessions_def)

lemma fmt_Errorf_not_same: "prefix \<noteq> [] \<Longrightarrow> fmt_Errorf prefix err \<noteq> err"
  by (cases err) (simp add: fmt_Errorf_def errors_New_def)

section \<open>Start and Stop\<close>

text \<open>
  C1 (as amended). When installing the Discover filter succeeds and installing the
  ServerAccepted filter fails, \<open>Start\<close> returns that error with the context
  \<^verbatim>\<open>failed installing filter: \<close> and removes nothing: the trace ends with the two
  installations and the Discover loop, no \<^verbatim>\<open>Unwatch\<close> is called, the Discover filter is
  still alive and its identifier is kept in \<open>discoverFilterID\<close>.
\<close>

theorem Start_second_install_fails:
  assumes first: "installResult c topicDiscoverServer (protocolKey (server s)) tr = (id1, None)"
    and second: "installResult c topicServerAccepted (protocolKey (server s))
        (tr @ [InstallTopicFilterCall topicDiscoverServer (protocolKey (server s)) id1 None,
               RequestProcessorLoopCall id1 topicDiscoverServer ProcessDiscoveryRequest])
        = (id2, Some err)"
  shows "Start c s tr =
      (Some (fmt_Errorf ''failed installing filter: '' err),
       s\<lparr>discoverFilterID := id1, serverAcceptedFilterID := id2\<rparr>,
       tr @ [InstallTopicFilterCall topicDiscoverServer (protocolKey (server s)) id1 None,
             RequestProcessorLoopCall id1 topicDiscoverServer ProcessDiscoveryRequest,
             InstallTopicFilterCall topicServerAccepted (protocolKey (server s)) id2 (Some err)])
     \<and> activeFilters (snd (snd (Start c s tr))) = activeFilters tr @ [id1]"
proof -
  have run: "Start c s tr =
      (Some (fmt_Errorf ''failed installing filter: '' err),
       s\<lparr>discoverFilterID := id1, serverAcceptedFilterID := id2\<rparr>,
       tr @ [InstallTopicFilterCall topicDiscoverServer (protocolKey (server s)) id1 None,
             RequestProcessorLoopCall id1 topicDiscoverServer ProcessDiscoveryRequest,
             InstallTopicFilterCall topicServerAccepted (protocolKey (server s)) id2 (Some err)])"
    using first second
    by (simp add: Start_def installTopicFilter_def requestProcessorLoop_def)
  show ?thesis
    unfolding run by (simp add: activeFilters_append)
qed

text \<open>
  The theorem at the example service, started on an empty trace with a transport that
  refuses the second filter.
\<close>

theorem Start_second_install_fails_witness:
  "Start acceptFilterFails exampleService [] =
      (Some (errors_New ''failed installing filter: too many filters''),
       exampleService\<lparr>discoverFilterID := ''filter:DISCOVER_NOTIFICATION_SERVER'',
                      serverAcceptedFilterID := ''''\<rparr>,
       [InstallTopicFilterCall topicDiscoverServer [0x4b]
          ''filter:DISCOVER_NOTIFICATION_SERVER'' None,
        RequestProcessorLoopCall ''filter:DISCOVER_NOTIFICATION_SERVER'' topicDiscoverServer
          ProcessDiscoveryRequest,
        InstallTopicFilterCall topicServerAccepted [0x4b] ''''
          (Some (errors_New ''too many filters''))])"
proof -
  have first: "installResult acceptFilterFails topicDiscoverServer
      (protocolKey (server exampleService)) [] = (''filter:DISCOVER_NOTIFICATION_SERVER'', None)"
    by (simp add: acceptFilterFails_def exampleCollaborators_def exampleService_def
        NewDiscoveryService_def topicDiscoverServer_def topicServerAccepted_def errors_New_def
        fmt_Errorf_def)
  have second: "installResult acceptFilterFails topicServerAccepted
      (protocolKey (server exampleService))
      ([] @ [InstallTopicFilterCall topicDiscoverServer (protocolKey (server exampleService))
               ''filter:DISCOVER_NOTIFICATION_SERVER'' None,
             RequestProcessorLoopCall ''filter:DISCOVER_NOTIFICATION_SERVER''
               topicDiscoverServer ProcessDiscoveryRequest])
      = ('''', Some (errors_New ''too many filters''))"
    by (simp add: acceptFilterFails_def exampleCollaborators_def exampleService_def
        NewDiscoveryService_def topicDiscoverServer_def topicServerAccepted_def errors_New_def
        fmt_Errorf_def)
  show ?thesis
    using Start_second_install_fails [OF first second]
    by (simp add: acceptFilterFails_def exampleCollaborators_def exampleService_def
        NewDiscoveryService_def topicDiscoverServer_def topicServerAccepted_def errors_New_def
        fmt_Errorf_def)
qed

text \<open>
  C1 as stated fails: after the failed start of the example service the Discover filter
  is still installed, and the trace holds no \<^verbatim>\<open>Unwatch\<close>.
\<close>

theorem Start_no_rollback_counterexample:
  "fst (Start acceptFilterFails exampleService []) =
      Some (errors_New ''failed installing filter: too many filters'')
   \<and> activeFilters (snd (snd (Start acceptFilterFails exampleService []))) =
      [''filter:DISCOVER_NOTIFICATION_SERVER'']
   \<and> snd (snd (Start acceptFilterFails exampleService [])) =
      [InstallTopicFilterCall topicDiscoverServer [0x4b]
         ''filter:DISCOVER_NOTIFICATION_SERVER'' None,
       RequestProcessorLoopCall ''filter:DISCOVER_NOTIFICATION_SERVER'' topicDiscoverServer
         ProcessDiscoveryRequest,
       InstallTopicFilterCall topicServerAccepted [0x4b] ''''
         (Some (errors_New ''too many filters''))]"
  by (simp add: Start_def installTopicFilter_def requestProcessorLoop_def Let_def
      acceptFilterFails_def exampleCollaborators_def exampleService_def NewDiscoveryService_def
      topicDiscoverServer_def topicServerAccepted_def errors_New_def fmt_Errorf_def
      activeFilters_def)


section \<open>The discover handler\<close>

text \<open>
  C7 (as amended). For a discover message with a present sender the handler builds the
  Propose parameters: addressed to that sender, keyed by the protocol key, under the
  ProposeServer topic, with the payload \<^verbatim>\<open>{"server": "0x<node identity>"}\<close>, the low 32
  bits of the configured TTL, the configured minimum proof-of-work and a work time of 5.
  When wrapping them succeeds, exactly one envelope, the wrapped one, is handed to
  \<^verbatim>\<open>Send\<close>, and the result is nil or the error of \<^verbatim>\<open>Send\<close> with context. When
  wrapping fails, nothing is handed to \<^verbatim>\<open>Send\<close> and the wrap error is returned with
  context.
\<close>

theorem processDiscoveryRequest_publishes_propose:
  assumes "msg_Src msg = Some src"
  shows \<open>proposeParams c s msg =
       \<lparr>Dst = Some src,
        KeySym = protocolKey (server s),
        Topic = MakeTopic c (bytes topicProposeServer),
        Payload = bytes (''{"server": "0x'' @ nodeID (server s) @ ''"}''),
        TTL = word_of_int (config_TTL (config (server s))),
        PoW = config_MinimumPoW (config (server s)),
        WorkTime = 5\<rparr>
   \<and> (wrapResult c (proposeParams c s msg) tr = Inr env \<longrightarrow>
        processDiscoveryRequest c s msg tr =
          (map_option (fmt_Errorf ''failed to send server proposal message: '')
             (sendResult c env (tr @ [WrapCall (proposeParams c s msg) (Inr env)])),
           tr @ [WrapCall (proposeParams c s msg) (Inr env),
                 SendCall env
                   (sendResult c env (tr @ [WrapCall (proposeParams c s msg) (Inr env)]))])
        \<and> sentEnvelopes (snd (processDiscoveryRequest c s msg tr)) = sentEnvelopes tr @ [env])
   \<and> (wrapResult c (proposeParams c s msg) tr = Inl err \<longrightarrow>
        processDiscoveryRequest c s msg tr =
          (Some (fmt_Errorf ''failed to wrap server proposal message: '' err),
           tr @ [WrapCall (proposeParams c s msg) (Inl err)])
        \<and> sentEnvelopes (snd (processDiscoveryRequest c s msg tr)) = sentEnvelopes tr)\<close>
proof -
  have params: \<open>proposeParams c s msg =
       \<lparr>Dst = Some src,
        KeySym = protocolKey (server s),
        Topic = MakeTopic c (bytes topicProposeServer),
        Payload = bytes (''{"server": "0x'' @ nodeID (server s) @ ''"}''),
        TTL = word_of_int (config_TTL (config (server s))),
        PoW = config_MinimumPoW (config (server s)),
        WorkTime = 5\<rparr>\<close>
    using assms by (simp add: proposeParams_def)
  have wrapped: "processDiscoveryRequest c s msg tr =
          (map_option (fmt_Errorf ''failed to send server proposal message: '')
             (sendResult c env (tr @ [WrapCall (proposeParams c s msg) (Inr env)])),
           tr @ [WrapCall (proposeParams c s msg) (Inr env),
                 SendCall env
                   (sendResult c env (tr @ [WrapCall (proposeParams c s msg) (Inr env)]))])"
    if "wrapResult c (proposeParams c s msg) tr = Inr env"
    using that
    by (simp add: processDiscoveryRequest_def Wrap_def Send_def Let_def split: option.splits)
  have failed: "processDiscoveryRequest c s msg tr =
          (Some (fmt_Errorf ''failed to wrap server proposal message: '' err),
           tr @ [WrapCall (proposeParams c s msg) (Inl err)])"
    if "wrapResult c (proposeParams c s msg) tr = Inl err"
    using that by (simp add: processDiscoveryRequest_def Wrap_def Let_def)
  show ?thesis
    using params wrapped failed
    by (simp add: sentEnvelopes_append) (simp add: sentEnvelopes_def)
qed

text \<open>
  The theorem at the example service and a discover message from the client 7: once with
  collaborators that all succeed, once with a failing \<^verbatim>\<open>Wrap\<close>.
\<close>

theorem processDiscoveryRequest_publishes_propose_witness:
  "processDiscoveryRequest exampleCollaborators exampleService
      \<lparr>msg_Src = Some 7, msg_Payload = []\<rparr> [] =
      (None, [WrapCall (examplePropose (Some 7)) (Inr (examplePropose (Some 7))),
              SendCall (examplePropose (Some 7)) None])
   \<and> processDiscoveryRequest wrapFails exampleService \<lparr>msg_Src = Some 7, msg_Payload = []\<rparr> [] =
      (Some (errors_New ''failed to wrap server proposal message: insufficient work time''),
       [WrapCall (examplePropose (Some 7)) (Inl (errors_New ''insufficient work time''))])"
proof -
  have src: "msg_Src \<lparr>msg_Src = Some (7::nat), msg_Payload = []\<rparr> = Some 7"
    by simp
  show ?thesis
    using processDiscoveryRequest_publishes_propose [OF src, of exampleCollaborators
        exampleService "[]" "examplePropose (Some 7)"]
      processDiscoveryRequest_publishes_propose [OF src, of wrapFails exampleService "[]" _
        "errors_New ''insufficient work time''"]
    by (simp add: wrapFails_def exampleCollaborators_def exampleService_def
        NewDiscoveryService_def examplePropose_def proposeParams_def MakeTopic_def bytes_def
        topicProposeServer_def errors_New_def fmt_Errorf_def)
qed

text \<open>
  C7 as stated fails: when \<^verbatim>\<open>Wrap\<close> fails, a discover message with a present sender
  leads to no publish at all.
\<close>

theorem processDiscoveryRequest_wrap_fails_counterexample:
  "msg_Src \<lparr>msg_Src = Some (7::nat), msg_Payload = []\<rparr> = Some 7
   \<and> sentEnvelopes (snd (processDiscoveryRequest wrapFails exampleService
        \<lparr>msg_Src = Some 7, msg_Payload = []\<rparr> [])) = []
   \<and> fst (processDiscoveryRequest wrapFails exampleService
        \<lparr>msg_Src = Some 7, msg_Payload = []\<rparr> []) =
      Some (errors_New ''failed to wrap server proposal message: insufficient work time'')"
  by (simp add: processDiscoveryRequest_def Wrap_def Send_def Let_def wrapFails_def
      exampleCollaborators_def exampleService_def NewDiscoveryService_def examplePropose_def
      proposeParams_def MakeTopic_def bytes_def topicProposeServer_def errors_New_def
      fmt_Errorf_def sentEnvelopes_def)

text \<open>
  C2: the code at a discover message without a sender. The handler does not look at
  \<^verbatim>\<open>msg.Src\<close>: it wraps a Propose message whose \<^verbatim>\<open>Dst\<close> is nil, hands it to \<^verbatim>\<open>Send\<close>
  and returns nil.
\<close>

theorem processDiscoveryRequest_without_sender:
  "processDiscoveryRequest exampleCollaborators exampleService
      \<lparr>msg_Src = None, msg_Payload = []\<rparr> [] =
      (None, [WrapCall (examplePropose None) (Inr (examplePropose None)),
              SendCall (examplePropose None) None])
   \<and> sentEnvelopes (snd (processDiscoveryRequest exampleCollaborators exampleService
        \<lparr>msg_Src = None, msg_Payload = []\<rparr> [])) = [examplePropose None]"
  by (simp add: processDiscoveryRequest_def Wrap_def Send_def Let_def exampleCollaborators_def
      exampleService_def NewDiscoveryService_def examplePropose_def proposeParams_def
      MakeTopic_def bytes_def topicProposeServer_def errors_New_def fmt_Errorf_def
      sentEnvelopes_def)

section \<open>The accept handler\<close>

text \<open>
  What the handler does once the three checks have passed (the payload decodes to
  \<^verbatim>\<open>"0x" + nodeID\<close>, the sender is present): one registration, then, when it succeeds,
  one \<^verbatim>\<open>Wrap\<close>, then, when that succeeds, one \<^verbatim>\<open>Send\<close>.
\<close>

lemma accept_register_fails:
  assumes "unmarshalResult c (msg_Payload msg) = Inr (''0x'' @ nodeID (server s))"
    and "msg_Src msg = Some src"
    and "registerResult c \<lparr>ClientKey = EncodeToString (FromECDSAPub c src)\<rparr> tr = Inl err"
  shows "processServerAcceptedRequest c s msg tr =
      (Some err,
       tr @ [RegisterClientSessionCall
               \<lparr>ClientKey = EncodeToString (FromECDSAPub c src)\<rparr> (Inl err)])"
  using assms by (simp add: processServerAcceptedRequest_def RegisterClientSession_def Let_def)

lemma accept_wrap_fails:
  assumes "unmarshalResult c (msg_Payload msg) = Inr (''0x'' @ nodeID (server s))"
    and "msg_Src msg = Some src"
    and "registerResult c \<lparr>ClientKey = EncodeToString (FromECDSAPub c src)\<rparr> tr = Inr sessionKey"
    and "wrapResult c (ackParams c s msg sessionKey)
          (tr @ [RegisterClientSessionCall \<lparr>ClientKey = EncodeToString (FromECDSAPub c src)\<rparr>
                   (Inr sessionKey)]) = Inl err"
  shows "processServerAcceptedRequest c s msg tr =
      (Some (fmt_Errorf ''failed to wrap server proposal message: '' err),
       tr @ [RegisterClientSessionCall
               \<lparr>ClientKey = EncodeToString (FromECDSAPub c src)\<rparr> (Inr sessionKey),
             WrapCall (ackParams c s msg sessionKey) (Inl err)])"
  using assms
  by (simp add: processServerAcceptedRequest_def RegisterClientSession_def Wrap_def Let_def)

lemma accept_wrapped:
  assumes "unmarshalResult c (msg_Payload msg) = Inr (''0x'' @ nodeID (server s))"
    and "msg_Src msg = Some src"
    and "registerResult c \<lparr>ClientKey = EncodeToString (FromECDSAPub c src)\<rparr> tr = Inr sessionKey"
    and "wrapResult c (ackParams c s msg sessionKey)
          (tr @ [RegisterClientSessionCall \<lparr>ClientKey = EncodeToString (FromECDSAPub c src)\<rparr>
                   (Inr sessionKey)]) = Inr env"
  shows "processServerAcceptedRequest c s msg tr =
      (map_option (fmt_Errorf ''failed to send server proposal message: '')
         (sendResult c env
            (tr @ [RegisterClientSessionCall
                     \<lparr>ClientKey = EncodeToString (FromECDSAPub c src)\<rparr> (Inr sessionKey),
                   WrapCall (ackParams c s msg sessionKey) (Inr env)])),
       tr @ [RegisterClientSessionCall
               \<lparr>ClientKey = EncodeToString (FromECDSAPub c src)\<rparr> (Inr sessionKey),
             WrapCall (ackParams c s msg sessionKey) (Inr env),
             SendCall env
               (sendResult c env
                  (tr @ [RegisterClientSessionCall
                           \<lparr>ClientKey = EncodeToString (FromECDSAPub c src)\<rparr>
                           (Inr sessionKey),
                         WrapCall (ackParams c s msg sessionKey) (Inr env)]))])"
  using assms
  by (simp add: processServerAcceptedRequest_def RegisterClientSession_def Wrap_def Send_def
      Let_def split: option.splits)

lemma accept_registers_once:
  assumes "unmarshalResult c (msg_Payload msg) = Inr (''0x'' @ nodeID (server s))"
    and "msg_Src msg = Some src"
  shows "registeredSessions (snd (processServerAcceptedRequest c s msg tr)) =
      registeredSessions tr @ [\<lparr>ClientKey = EncodeToString (FromECDSAPub c src)\<rparr>]"
proof (cases "registerResult c \<lparr>ClientKey = EncodeToString (FromECDSAPub c src)\<rparr> tr")
  case (Inl err)
  show ?thesis
    unfolding accept_register_fails [OF assms Inl]
    by (simp add: registeredSessions_append) (simp add: registeredSessions_def)
next
  case (Inr sessionKey)
  show ?thesis
  proof (cases "wrapResult c (ackParams c s msg sessionKey)
          (tr @ [RegisterClientSessionCall \<lparr>ClientKey = EncodeToString (FromECDSAPub c src)\<rparr>
                   (Inr sessionKey)])")
    case (Inl err)
    show ?thesis
      unfolding accept_wrap_fails [OF assms Inr Inl]
      by (simp add: registeredSessions_append) (simp add: registeredSessions_def)
  next
    case wrapped: (Inr env)
    show ?thesis
      unfolding accept_wrapped [OF assms Inr wrapped]
      by (simp add: registeredSessions_append) (simp add: registeredSessions_def)
  qed
qed

text \<open>
  C3 (as amended). For an accept message with a present sender whose decoded server field
  is \<^verbatim>\<open>"0x" + nodeID\<close>, the handler makes exactly one registration call, with the
  descriptor whose client key is the hex encoding of the sender's public key bytes. When
  the registration succeeds it builds the Ack parameters: addressed to that sender, under
  the AckSubscription topic, keyed by the protocol key, with the payload
  \<^verbatim>\<open>{"server": "0x<node identity>", "key": "0x<hex session key>"}\<close> carrying the key the
  registry returned. When wrapping them succeeds, exactly one envelope, the wrapped one, is
  handed to \<^verbatim>\<open>Send\<close>; when wrapping fails, nothing is handed to \<^verbatim>\<open>Send\<close> and the wrap
  error is returned with context.
\<close>

theorem processServerAcceptedRequest_registers_and_acks:
  assumes "unmarshalResult c (msg_Payload msg) = Inr (''0x'' @ nodeID (server s))"
    and "msg_Src msg = Some src"
  shows \<open>registeredSessions (snd (processServerAcceptedRequest c s msg tr)) =
      registeredSessions tr @ [\<lparr>ClientKey = EncodeToString (FromECDSAPub c src)\<rparr>]
   \<and> ackParams c s msg sessionKey =
       \<lparr>Dst = Some src,
        KeySym = protocolKey (server s),
        Topic = MakeTopic c (bytes topicAckClientSubscription),
        Payload = bytes (''{"server": "0x'' @ nodeID (server s) @ ''", "key": "0x''
                    @ EncodeToString sessionKey @ ''"}''),
        TTL = word_of_int (config_TTL (config (server s))),
        PoW = config_MinimumPoW (config (server s)),
        WorkTime = 5\<rparr>
   \<and> (registerResult c \<lparr>ClientKey = EncodeToString (FromECDSAPub c src)\<rparr> tr = Inr sessionKey
       \<and> wrapResult c (ackParams c s msg sessionKey)
          (tr @ [RegisterClientSessionCall \<lparr>ClientKey = EncodeToString (FromECDSAPub c src)\<rparr>
                   (Inr sessionKey)]) = Inr env \<longrightarrow>
        snd (processServerAcceptedRequest c s msg tr) =
          tr @ [RegisterClientSessionCall
                  \<lparr>ClientKey = EncodeToString (FromECDSAPub c src)\<rparr> (Inr sessionKey),
                WrapCall (ackParams c s msg sessionKey) (Inr env),
                SendCall env
                  (sendResult c env
                     (tr @ [RegisterClientSessionCall
                              \<lparr>ClientKey = EncodeToString (FromECDSAPub c src)\<rparr>
                              (Inr sessionKey),
                            WrapCall (ackParams c s msg sessionKey) (Inr env)]))]
        \<and> sentEnvelopes (snd (processServerAcceptedRequest c s msg tr)) =
            sentEnvelopes tr @ [env]
        \<and> fst (processServerAcceptedRequest c s msg tr) =
            map_option (fmt_Errorf ''failed to send server proposal message: '')
              (sendResult c env
                 (tr @ [RegisterClientSessionCall
                          \<lparr>ClientKey = EncodeToString (FromECDSAPub c src)\<rparr> (Inr sessionKey),
                        WrapCall (ackParams c s msg sessionKey) (Inr env)])))
   \<and> (registerResult c \<lparr>ClientKey = EncodeToString (FromECDSAPub c src)\<rparr> tr = Inr sessionKey
       \<and> wrapResult c (ackParams c s msg sessionKey)
          (tr @ [RegisterClientSessionCall \<lparr>ClientKey = EncodeToString (FromECDSAPub c src)\<rparr>
                   (Inr sessionKey)]) = Inl err \<longrightarrow>
        processServerAcceptedRequest c s msg tr =
          (Some (fmt_Errorf ''failed to wrap server proposal message: '' err),
           tr @ [RegisterClientSessionCall
                   \<lparr>ClientKey = EncodeToString (FromECDSAPub c src)\<rparr> (Inr sessionKey),
                 WrapCall (ackParams c s msg sessionKey) (Inl err)])
        \<and> sentEnvelopes (snd (processServerAcceptedRequest c s msg tr)) = sentEnvelopes tr)\<close>
proof -
  have params: \<open>ackParams c s msg sessionKey =
       \<lparr>Dst = Some src,
        KeySym = protocolKey (server s),
        Topic = MakeTopic c (bytes topicAckClientSubscription),
        Payload = bytes (''{"server": "0x'' @ nodeID (server s) @ ''", "key": "0x''
                    @ EncodeToString sessionKey @ ''"}''),
        TTL = word_of_int (config_TTL (config (server s))),
        PoW = config_MinimumPoW (config (server s)),
        WorkTime = 5\<rparr>\<close>
    using assms by (simp add: ackParams_def)
  show ?thesis
    using params accept_registers_once [OF assms, of tr]
      accept_wrapped [OF assms, of tr sessionKey env]
      accept_wrap_fails [OF assms, of tr sessionKey err]
    by (simp add: sentEnvelopes_append) (simp add: sentEnvelopes_def)
qed

text \<open>
  The theorem at the spec's scenario: the client 7 accepts the server \<^verbatim>\<open>0xabcd\<close>, is
  registered under the key \<^verbatim>\<open>0407\<close> and is sent the session key \<^verbatim>\<open>k1\<close>, that is
  \<^verbatim>\<open>0x6b31\<close>; with a failing \<^verbatim>\<open>Wrap\<close> the registration stands and nothing is sent.
\<close>

theorem processServerAcceptedRequest_registers_and_acks_witness:
  \<open>processServerAcceptedRequest exampleCollaborators exampleService
      (acceptMessage (Some 7) ''{"server": "0xabcd"}'') [] =
      (None, [RegisterClientSessionCall \<lparr>ClientKey = ''0407''\<rparr> (Inr [0x6b, 0x31]),
              WrapCall (exampleAck (Some 7)) (Inr (exampleAck (Some 7))),
              SendCall (exampleAck (Some 7)) None])
   \<and> processServerAcceptedRequest wrapFails exampleService
      (acceptMessage (Some 7) ''{"server": "0xabcd"}'') [] =
      (Some (errors_New ''failed to wrap server proposal message: insufficient work time''),
       [RegisterClientSessionCall \<lparr>ClientKey = ''0407''\<rparr> (Inr [0x6b, 0x31]),
        WrapCall (exampleAck (Some 7)) (Inl (errors_New ''insufficient work time''))])\<close>
proof -
  have decoded: \<open>unmarshalResult c (msg_Payload (acceptMessage (Some 7) ''{"server": "0xabcd"}''))
      = Inr (''0x'' @ nodeID (server exampleService))\<close>
    if "unmarshalResult c = exampleUnmarshal" for c :: "(nat, nat, (nat, nat) MessageParams) Collaborators"
    using that by (simp add: exampleCollaborators_def exampleService_def
        NewDiscoveryService_def exampleUnmarshal_def acceptMessage_def bytes_def)
  have src: \<open>msg_Src (acceptMessage (Some 7) ''{"server": "0xabcd"}'') = Some 7\<close>
    by (simp add: acceptMessage_def)
  have ok: "unmarshalResult exampleCollaborators = exampleUnmarshal"
    and wf: "unmarshalResult wrapFails = exampleUnmarshal"
    by (simp_all add: exampleCollaborators_def wrapFails_def)
  have first: \<open>processServerAcceptedRequest exampleCollaborators exampleService
      (acceptMessage (Some 7) ''{"server": "0xabcd"}'') [] =
      (None, [RegisterClientSessionCall \<lparr>ClientKey = ''0407''\<rparr> (Inr [0x6b, 0x31]),
              WrapCall (exampleAck (Some 7)) (Inr (exampleAck (Some 7))),
              SendCall (exampleAck (Some 7)) None])\<close>
    using processServerAcceptedRequest_registers_and_acks [OF decoded [OF ok] src,
        of "[]" "[0x6b, 0x31]" "exampleAck (Some 7)"]
    by (simp add: exampleCollaborators_def exampleService_def NewDiscoveryService_def
        exampleUnmarshal_def exampleAck_def acceptMessage_def ackParams_def MakeTopic_def
        bytes_def topicAckClientSubscription_def hextable_def errors_New_def fmt_Errorf_def
        prod_eq_iff)
  have second: \<open>processServerAcceptedRequest wrapFails exampleService
      (acceptMessage (Some 7) ''{"server": "0xabcd"}'') [] =
      (Some (errors_New ''failed to wrap server proposal message: insufficient work time''),
       [RegisterClientSessionCall \<lparr>ClientKey = ''0407''\<rparr> (Inr [0x6b, 0x31]),
        WrapCall (exampleAck (Some 7)) (Inl (errors_New ''insufficient work time''))])\<close>
    using processServerAcceptedRequest_registers_and_acks [OF decoded [OF wf] src,
        of "[]" "[0x6b, 0x31]" _ "errors_New ''insufficient work time''"]
    by (simp add: wrapFails_def exampleCollaborators_def exampleService_def
        NewDiscoveryService_def exampleUnmarshal_def exampleAck_def acceptMessage_def
        ackParams_def MakeTopic_def bytes_def topicAckClientSubscription_def hextable_def
        errors_New_def fmt_Errorf_def)
  show ?thesis
    using first second by simp
qed

text \<open>
  C3 as stated fails: when \<^verbatim>\<open>Wrap\<close> fails after a successful registration, no Ack is
  published.
\<close>

theorem processServerAcceptedRequest_wrap_fails_counterexample:
  \<open>registeredSessions (snd (processServerAcceptedRequest wrapFails exampleService
        (acceptMessage (Some 7) ''{"server": "0xabcd"}'') [])) = [\<lparr>ClientKey = ''0407''\<rparr>]
   \<and> sentEnvelopes (snd (processServerAcceptedRequest wrapFails exampleService
        (acceptMessage (Some 7) ''{"server": "0xabcd"}'') [])) = []
   \<and> fst (processServerAcceptedRequest wrapFails exampleService
        (acceptMessage (Some 7) ''{"server": "0xabcd"}'') []) =
      Some (errors_New ''failed to wrap server proposal message: insufficient work time'')\<close>
  by (simp add: processServerAcceptedRequest_def RegisterClientSession_def Wrap_def Send_def
      Let_def wrapFails_def exampleCollaborators_def exampleService_def NewDiscoveryService_def
      exampleUnmarshal_def exampleAck_def acceptMessage_def ackParams_def MakeTopic_def bytes_def
      topicAckClientSubscription_def hextable_def errors_New_def fmt_Errorf_def
      sentEnvelopes_def registeredSessions_def)

text \<open>
  C4. An accept message whose payload decodes, whose sender is present and whose decoded
  server identifier differs from \<^verbatim>\<open>"0x" + nodeID\<close> is ignored: the handler returns nil
  and calls nothing (the trace is unchanged, so there is no registration and no publish).
\<close>

theorem processServerAcceptedRequest_other_server:
  assumes "unmarshalResult c (msg_Payload msg) = Inr ServerID"
    and "msg_Src msg = Some src"
    and "ServerID \<noteq> ''0x'' @ nodeID (server s)"
  shows "processServerAcceptedRequest c s msg tr = (None, tr)"
  using assms by (simp add: processServerAcceptedRequest_def)

text \<open>The theorem at an accept message of the client 7 for the server \<^verbatim>\<open>0xffff\<close>.\<close>

theorem processServerAcceptedRequest_other_server_witness:
  \<open>processServerAcceptedRequest exampleCollaborators exampleService
      (acceptMessage (Some 7) ''{"server": "0xffff"}'') [] = (None, [])\<close>
proof -
  have decoded: \<open>unmarshalResult exampleCollaborators
      (msg_Payload (acceptMessage (Some 7) ''{"server": "0xffff"}'')) = Inr ''0xffff''\<close>
    by (simp add: exampleCollaborators_def exampleService_def NewDiscoveryService_def
        exampleUnmarshal_def acceptMessage_def bytes_def)
  have src: \<open>msg_Src (acceptMessage (Some 7) ''{"server": "0xffff"}'') = Some 7\<close>
    by (simp add: acceptMessage_def)
  have other: "''0xffff'' \<noteq> ''0x'' @ nodeID (server exampleService)"
    by (simp add: exampleService_def NewDiscoveryService_def)
  show ?thesis
    by (rule processServerAcceptedRequest_other_server [OF decoded src other])
qed

text \<open>
  C5. The accept handler checks in this order: the payload must decode (otherwise the
  decoder's error is returned, whether or not a sender is present), then the sender must
  be present (otherwise the missing-sender error is returned, whatever server the payload
  names), then the server identifier must be this node's (otherwise nil is returned). On
  each of these paths the trace is unchanged: nothing is registered or published.
\<close>

theorem processServerAcceptedRequest_validation_order:
  "(unmarshalResult c (msg_Payload msg) = Inl err \<longrightarrow>
      processServerAcceptedRequest c s msg tr = (Some err, tr))
   \<and> (unmarshalResult c (msg_Payload msg) = Inr ServerID \<and> msg_Src msg = None \<longrightarrow>
      processServerAcceptedRequest c s msg tr =
        (Some (errors_New ''message 'from' field is required''), tr))
   \<and> (unmarshalResult c (msg_Payload msg) = Inr ServerID \<and> msg_Src msg = Some src
        \<and> ServerID \<noteq> ''0x'' @ nodeID (server s) \<longrightarrow>
      processServerAcceptedRequest c s msg tr = (None, tr))"
  by (simp add: processServerAcceptedRequest_def)

text \<open>
  The theorem at three messages: one that is not JSON and has no sender, one for this
  server without a sender, one from the client 7 for another server.
\<close>

theorem processServerAcceptedRequest_validation_order_witness:
  \<open>processServerAcceptedRequest exampleCollaborators exampleService
      (acceptMessage None ''not json'') [] =
      (Some (GoError ''*json.SyntaxError''
         ''invalid character 'o' in literal null (expecting 'u')''), [])
   \<and> processServerAcceptedRequest exampleCollaborators exampleService
      (acceptMessage None ''{"server": "0xabcd"}'') [] =
      (Some (errors_New ''message 'from' field is required''), [])
   \<and> processServerAcceptedRequest exampleCollaborators exampleService
      (acceptMessage (Some 7) ''{"server": "0xffff"}'') [] = (None, [])\<close>
  using processServerAcceptedRequest_validation_order [of exampleCollaborators
      "acceptMessage None ''not json''"
      "GoError ''*json.SyntaxError''
        ''invalid character 'o' in literal null (expecting 'u')''" exampleService "[]"]
    processServerAcceptedRequest_validation_order [of exampleCollaborators
      \<open>acceptMessage None ''{"server": "0xabcd"}''\<close> _ exampleService "[]" "''0xabcd''"]
    processServerAcceptedRequest_validation_order [of exampleCollaborators
      \<open>acceptMessage (Some 7) ''{"server": "0xffff"}''\<close> _ exampleService "[]" "''0xffff''"
      7]
  by (simp add: exampleCollaborators_def exampleService_def NewDiscoveryService_def
      exampleUnmarshal_def acceptMessage_def bytes_def errors_New_def)

text \<open>
  C6. Once the checks have passed: an error of the registry is returned as it is, and the
  handler stops there, with no \<^verbatim>\<open>Wrap\<close> and no \<^verbatim>\<open>Send\<close>; an error of \<^verbatim>\<open>Send\<close> is
  returned as a new error whose text is the context
  \<^verbatim>\<open>failed to send server proposal message: \<close> followed by the text of the transport's
  error, which is never the transport's error itself.
\<close>

theorem processServerAcceptedRequest_failures:
  assumes "unmarshalResult c (msg_Payload msg) = Inr (''0x'' @ nodeID (server s))"
    and "msg_Src msg = Some src"
  shows "(registerResult c \<lparr>ClientKey = EncodeToString (FromECDSAPub c src)\<rparr> tr = Inl err \<longrightarrow>
        processServerAcceptedRequest c s msg tr =
          (Some err,
           tr @ [RegisterClientSessionCall
                   \<lparr>ClientKey = EncodeToString (FromECDSAPub c src)\<rparr> (Inl err)])
        \<and> sentEnvelopes (snd (processServerAcceptedRequest c s msg tr)) = sentEnvelopes tr)
   \<and> (registerResult c \<lparr>ClientKey = EncodeToString (FromECDSAPub c src)\<rparr> tr = Inr sessionKey
       \<and> wrapResult c (ackParams c s msg sessionKey)
          (tr @ [RegisterClientSessionCall \<lparr>ClientKey = EncodeToString (FromECDSAPub c src)\<rparr>
                   (Inr sessionKey)]) = Inr env
       \<and> sendResult c env
            (tr @ [RegisterClientSessionCall
                     \<lparr>ClientKey = EncodeToString (FromECDSAPub c src)\<rparr> (Inr sessionKey),
                   WrapCall (ackParams c s msg sessionKey) (Inr env)]) = Some err \<longrightarrow>
        fst (processServerAcceptedRequest c s msg tr) =
          Some (fmt_Errorf ''failed to send server proposal message: '' err)
        \<and> fst (processServerAcceptedRequest c s msg tr) \<noteq> Some err
        \<and> Error (fmt_Errorf ''failed to send server proposal message: '' err) =
            ''failed to send server proposal message: '' @ Error err)"
proof -
  have registry: "processServerAcceptedRequest c s msg tr =
          (Some err,
           tr @ [RegisterClientSessionCall
                   \<lparr>ClientKey = EncodeToString (FromECDSAPub c src)\<rparr> (Inl err)])
        \<and> sentEnvelopes (snd (processServerAcceptedRequest c s msg tr)) = sentEnvelopes tr"
    if "registerResult c \<lparr>ClientKey = EncodeToString (FromECDSAPub c src)\<rparr> tr = Inl err"
    unfolding accept_register_fails [OF assms that]
    by (simp add: sentEnvelopes_append) (simp add: sentEnvelopes_def)
  have transport: "fst (processServerAcceptedRequest c s msg tr) =
          Some (fmt_Errorf ''failed to send server proposal message: '' err)"
    if "registerResult c \<lparr>ClientKey = EncodeToString (FromECDSAPub c src)\<rparr> tr = Inr sessionKey"
      and "wrapResult c (ackParams c s msg sessionKey)
          (tr @ [RegisterClientSessionCall \<lparr>ClientKey = EncodeToString (FromECDSAPub c src)\<rparr>
                   (Inr sessionKey)]) = Inr env"
      and "sendResult c env
            (tr @ [RegisterClientSessionCall
                     \<lparr>ClientKey = EncodeToString (FromECDSAPub c src)\<rparr> (Inr sessionKey),
                   WrapCall (ackParams c s msg sessionKey) (Inr env)]) = Some err"
    unfolding accept_wrapped [OF assms that(1) that(2)] using that(3) by simp
  have wrapped: "fmt_Errorf ''failed to send server proposal message: '' err \<noteq> err"
    by (rule fmt_Errorf_not_same) simp
  have message: "Error (fmt_Errorf ''failed to send server proposal message: '' err) =
      ''failed to send server proposal message: '' @ Error err"
    by (simp add: fmt_Errorf_def errors_New_def)
  show ?thesis
    apply (intro conjI impI)
    subgoal using registry by blast
    subgoal using registry by blast
    subgoal using transport by blast
    subgoal using transport wrapped by fastforce
    subgoal using message by blast
    done
qed

text \<open>
  The theorem at the accept message of the client 7 for this server: once with a failing
  registry, once with a failing \<^verbatim>\<open>Send\<close>.
\<close>

theorem processServerAcceptedRequest_failures_witness:
  \<open>processServerAcceptedRequest registryFails exampleService
      (acceptMessage (Some 7) ''{"server": "0xabcd"}'') [] =
      (Some (GoError ''*registry.Error'' ''registry closed''),
       [RegisterClientSessionCall \<lparr>ClientKey = ''0407''\<rparr>
          (Inl (GoError ''*registry.Error'' ''registry closed''))])
   \<and> fst (processServerAcceptedRequest sendFails exampleService
      (acceptMessage (Some 7) ''{"server": "0xabcd"}'') []) =
      Some (errors_New ''failed to send server proposal message: failed to add envelope'')\<close>
proof -
  have src: \<open>msg_Src (acceptMessage (Some 7) ''{"server": "0xabcd"}'') = Some 7\<close>
    by (simp add: acceptMessage_def)
  have decoded1: \<open>unmarshalResult registryFails
      (msg_Payload (acceptMessage (Some 7) ''{"server": "0xabcd"}''))
      = Inr (''0x'' @ nodeID (server exampleService))\<close>
    by (simp add: registryFails_def exampleCollaborators_def exampleService_def
        NewDiscoveryService_def exampleUnmarshal_def acceptMessage_def bytes_def)
  have decoded2: \<open>unmarshalResult sendFails
      (msg_Payload (acceptMessage (Some 7) ''{"server": "0xabcd"}''))
      = Inr (''0x'' @ nodeID (server exampleService))\<close>
    by (simp add: sendFails_def exampleCollaborators_def exampleService_def
        NewDiscoveryService_def exampleUnmarshal_def acceptMessage_def bytes_def)
  show ?thesis
    using processServerAcceptedRequest_failures [OF decoded1 src, of "[]"
        "GoError ''*registry.Error'' ''registry closed''"]
      processServerAcceptedRequest_failures [OF decoded2 src, of "[]"
        "errors_New ''failed to add envelope''" "[0x6b, 0x31]" "exampleAck (Some 7)"]
    by (simp add: registryFails_def sendFails_def exampleCollaborators_def exampleService_def
        NewDiscoveryService_def exampleUnmarshal_def exampleAck_def acceptMessage_def
        ackParams_def MakeTopic_def bytes_def topicAckClientSubscription_def hextable_def
        errors_New_def fmt_Errorf_def)
qed

text \<open>
  C9 (as amended). When \<^verbatim>\<open>json.Unmarshal\<close> accepts the payload and leaves the server
  identifier empty, as it does for \<^verbatim>\<open>{}\<close>, there is no decoding error: with a present
  sender the comparison with \<^verbatim>\<open>"0x" + nodeID\<close>, which is never empty, fails and the
  handler returns nil with the trace unchanged (no registration, no publish); with an
  absent sender it returns the missing-sender error. The error of \<^verbatim>\<open>json.Unmarshal\<close>,
  whatever its kind, is returned as it is.
\<close>

theorem processServerAcceptedRequest_empty_ServerID:
  "(unmarshalResult c (msg_Payload msg) = Inr '''' \<and> msg_Src msg = Some src \<longrightarrow>
      ''0x'' @ nodeID (server s) \<noteq> ''''
      \<and> processServerAcceptedRequest c s msg tr = (None, tr))
   \<and> (unmarshalResult c (msg_Payload msg) = Inr '''' \<and> msg_Src msg = None \<longrightarrow>
      processServerAcceptedRequest c s msg tr =
        (Some (errors_New ''message 'from' field is required''), tr))
   \<and> (unmarshalResult c (msg_Payload msg) = Inl err \<longrightarrow>
      processServerAcceptedRequest c s msg tr = (Some err, tr))"
  by (simp add: processServerAcceptedRequest_def)

text \<open>
  The theorem at the payload \<^verbatim>\<open>{}\<close>, from the client 7 and from no sender, and at a
  payload that is not JSON.
\<close>

theorem processServerAcceptedRequest_empty_ServerID_witness:
  "processServerAcceptedRequest exampleCollaborators exampleService
      (acceptMessage (Some 7) ''{}'') [] = (None, [])
   \<and> processServerAcceptedRequest exampleCollaborators exampleService
      (acceptMessage None ''{}'') [] =
      (Some (errors_New ''message 'from' field is required''), [])
   \<and> processServerAcceptedRequest exampleCollaborators exampleService
      (acceptMessage (Some 7) ''not json'') [] =
      (Some (GoError ''*json.SyntaxError''
         ''invalid character 'o' in literal null (expecting 'u')''), [])"
  using processServerAcceptedRequest_empty_ServerID [of exampleCollaborators
      "acceptMessage (Some 7) ''{}''" 7 exampleService "[]"]
    processServerAcceptedRequest_empty_ServerID [of exampleCollaborators
      "acceptMessage None ''{}''" _ exampleService "[]"]
    processServerAcceptedRequest_empty_ServerID [of exampleCollaborators
      "acceptMessage (Some 7) ''not json''" _ exampleService "[]"
      "GoError ''*json.SyntaxError''
        ''invalid character 'o' in literal null (expecting 'u')''"]
  by (simp add: exampleCollaborators_def exampleService_def NewDiscoveryService_def
      exampleUnmarshal_def acceptMessage_def bytes_def errors_New_def)

text \<open>
  C9 as stated fails: the accept message with the payload \<^verbatim>\<open>{}\<close> and no sender decodes
  without an error, and the handler returns the missing-sender error, not success. And a
  payload that is valid JSON with a number in the \<^verbatim>\<open>server\<close> field takes the decoding
  error path: the decoder's type error is returned.
\<close>

theorem processServerAcceptedRequest_empty_object_counterexample:
  \<open>unmarshalResult exampleCollaborators (msg_Payload (acceptMessage None ''{}'')) = Inr ''''
   \<and> processServerAcceptedRequest exampleCollaborators exampleService
      (acceptMessage None ''{}'') [] =
      (Some (errors_New ''message 'from' field is required''), [])
   \<and> fst (processServerAcceptedRequest exampleCollaborators exampleService
      (acceptMessage None ''{}'') []) \<noteq> None
   \<and> processServerAcceptedRequest exampleCollaborators exampleService
      (acceptMessage (Some 7) ''{"server": 1}'') [] =
      (Some (GoError ''*json.UnmarshalTypeError''
         ''json: cannot unmarshal number into Go value of type string''), [])\<close>
  by (simp add: processServerAcceptedRequest_def exampleCollaborators_def exampleService_def
      NewDiscoveryService_def exampleUnmarshal_def acceptMessage_def bytes_def errors_New_def)

end
